theory Spec2Isabelle
  imports Complex_Main
begin

section \<open>Python floats\<close>

text \<open>
  A Python \<^verbatim>\<open>float\<close> is an IEEE 754 binary64 number, and \<^verbatim>\<open>+\<close> and \<^verbatim>\<open>*\<close> on floats return the
  exact result rounded to the nearest such number, ties to the even significand. A finite
  float is carried as the rational it denotes. \<^verbatim>\<open>inf\<close> and \<^verbatim>\<open>nan\<close> have no counterpart, and
  the rounding below is that of the normal range (no subnormal numbers, no overflow),
  which is where the quantities of this program live: seconds counted in tenths, and
  numbers of samples.
\<close>

text \<open>The measure by which \<open>normalise\<close> terminates.\<close>

definition normalise_measure :: "rat \<Rightarrow> nat" where
  "normalise_measure v =
     (if 9007199254740992 \<le> v then nat \<lceil>v\<rceil>
      else if 0 < v \<and> v < 4503599627370496 then nat \<lceil>4503599627370496 / v\<rceil>
      else 0)"

text \<open>A positive rational is scaled by powers of two until it lies between \<open>2\<^sup>5\<^sup>2\<close>
  (included) and \<open>2\<^sup>5\<^sup>3\<close> (excluded); the exponent counts the halvings, and the doublings
  negatively.\<close>

function normalise :: "rat \<Rightarrow> int \<Rightarrow> rat \<times> int" where
  "normalise v e =
     (if v \<le> 0 then (v, e)
      else if 9007199254740992 \<le> v then normalise (v / 2) (e + 1)
      else if v < 4503599627370496 then normalise (v * 2) (e - 1)
      else (v, e))"
  by pat_completeness auto
termination
proof (relation "measure (\<lambda>(v, e). normalise_measure v)")
  have half: "\<lceil>x / 2\<rceil> < \<lceil>x\<rceil>" if "1 < x" for x :: rat
  proof -
    have "2 \<le> \<lceil>x\<rceil>"
      using that by (simp add: le_ceiling_iff)
    then have "(2::rat) \<le> of_int \<lceil>x\<rceil>"
      by (metis of_int_le_iff of_int_numeral)
    then have "x / 2 \<le> of_int \<lceil>x\<rceil> - 1"
      using le_of_int_ceiling [of x] by linarith
    then show ?thesis
      by (simp only: ceiling_less_iff)
  qed
  have pos: "0 < \<lceil>x\<rceil>" if "1 < x" for x :: rat
    using that by (simp add: less_ceiling_iff)
  show "wf (measure (\<lambda>(v, e). normalise_measure v))"
    by (rule wf_measure)
  show "((v / 2, e + 1), (v, e)) \<in> measure (\<lambda>(v, e). normalise_measure v)"
    if "9007199254740992 \<le> v" for v :: rat and e :: int
  proof -
    have "1 < v" using that by linarith
    then have "\<lceil>v / 2\<rceil> < \<lceil>v\<rceil>" "0 < \<lceil>v\<rceil>"
      by (rule half, rule pos)
    moreover have "\<not> v / 2 < 4503599627370496"
      using that by linarith
    ultimately have "normalise_measure (v / 2) < normalise_measure v"
      using that by (simp add: normalise_measure_def)
    then show ?thesis
      by (simp only: in_measure split_conv)
  qed
  show "((v * 2, e - 1), (v, e)) \<in> measure (\<lambda>(v, e). normalise_measure v)"
    if "\<not> v \<le> 0" and "v < 4503599627370496" for v :: rat and e :: int
  proof -
    let ?x = "4503599627370496 / v"
    have v: "0 < v" using that(1) by simp
    have x: "1 < ?x"
      using v that(2) by (simp add: less_divide_eq)
    have halve: "4503599627370496 / (v * 2) = ?x / 2"
      by (simp only: divide_divide_eq_left)
    have small: "\<not> 9007199254740992 \<le> v * 2" "\<not> 9007199254740992 \<le> v"
      using that(2) by linarith+
    have m1: "normalise_measure v = nat \<lceil>?x\<rceil>"
      using v that(2) small(2) by (simp add: normalise_measure_def)
    have m2: "normalise_measure (v * 2) \<le> nat \<lceil>?x / 2\<rceil>"
    proof (cases "v * 2 < 4503599627370496")
      case True
      then have "normalise_measure (v * 2) = nat \<lceil>4503599627370496 / (v * 2)\<rceil>"
        using small(1) v by (simp add: normalise_measure_def)
      then show ?thesis by (simp only: halve)
    next
      case False
      then have "normalise_measure (v * 2) = 0"
        using small(1) by (simp add: normalise_measure_def)
      then show ?thesis by simp
    qed
    have "normalise_measure (v * 2) < normalise_measure v"
      using m1 m2 half [OF x] pos [OF x] by linarith
    then show ?thesis
      by (simp only: in_measure split_conv)
  qed
qed

text \<open>The nearest integer, a tie going to the even one.\<close>

definition round_half_even :: "rat \<Rightarrow> int" where
  "round_half_even x =
     (let f = \<lfloor>x\<rfloor>; r = x - of_int f
      in if r < 1 / 2 then f
         else if 1 / 2 < r then f + 1
         else if even f then f else f + 1)"

definition pow2 :: "int \<Rightarrow> rat" where
  "pow2 e = (if 0 \<le> e then 2 ^ nat e else 1 / 2 ^ nat (- e))"

text \<open>The float nearest to a rational: 53 significant bits, ties to even.\<close>

definition round_double :: "rat \<Rightarrow> rat" where
  "round_double v =
     (case normalise \<bar>v\<bar> 0 of
        (m, e) \<Rightarrow> sgn v * of_int (round_half_even m) * pow2 e)"

text \<open>\<^verbatim>\<open>x + y\<close> and \<^verbatim>\<open>x * y\<close> on floats.\<close>

definition float_add :: "rat \<Rightarrow> rat \<Rightarrow> rat" where
  "float_add x y = round_double (x + y)"

definition float_mul :: "rat \<Rightarrow> rat \<Rightarrow> rat" where
  "float_mul x y = round_double (x * y)"

section \<open>Domain model: states and events\<close>

text \<open>
  \<^verbatim>\<open>domain/states.py\<close>: \<^verbatim>\<open>class AppState(str, Enum)\<close> with seven members.
  \<^verbatim>\<open>__str__\<close> returns the member's value, which is what an f-string prints.
\<close>

datatype AppState = INIT | READY | RECORDING | PAUSED | PROCESSING | DONE | ERROR

fun str_AppState :: "AppState \<Rightarrow> string" where
  "str_AppState INIT = ''INIT''"
| "str_AppState READY = ''READY''"
| "str_AppState RECORDING = ''RECORDING''"
| "str_AppState PAUSED = ''PAUSED''"
| "str_AppState PROCESSING = ''PROCESSING''"
| "str_AppState DONE = ''DONE''"
| "str_AppState ERROR = ''ERROR''"

text \<open>
  \<^verbatim>\<open>domain/events.py\<close>: the frozen dataclasses deriving from \<^verbatim>\<open>AppEvent\<close>, with their
  fields in declaration order. \<^verbatim>\<open>FullSTTDone(transcript, job_id)\<close>,
  \<^verbatim>\<open>FullSTTFail(error_code, error_hint, job_id)\<close>,
  \<^verbatim>\<open>DoctorCompleted(success, error_code, error_hint)\<close>,
  \<^verbatim>\<open>AudioLevelUpdated(level, thread_id)\<close>. The float \<^verbatim>\<open>level\<close> is carried as a rational;
  no transition reads it.
\<close>

datatype AppEvent =
    KeyF9Pressed
  | KeyF10Pressed
  | KeyF8Pressed
  | KeyF2Pressed
  | QuitRequested
  | FullSTTDone string string
  | FullSTTFail string string string
  | DoctorCompleted bool "string option" "string option"
  | AudioLevelUpdated rat int

text \<open>The event classes themselves, as \<^verbatim>\<open>type(event)\<close> yields them and as
  \<^verbatim>\<open>get_allowed_transitions\<close> lists them.\<close>

datatype EventClass =
    KeyF9Pressed_cls
  | KeyF10Pressed_cls
  | KeyF8Pressed_cls
  | KeyF2Pressed_cls
  | QuitRequested_cls
  | FullSTTDone_cls
  | FullSTTFail_cls
  | DoctorCompleted_cls
  | AudioLevelUpdated_cls

fun type_of :: "AppEvent \<Rightarrow> EventClass" where
  "type_of KeyF9Pressed = KeyF9Pressed_cls"
| "type_of KeyF10Pressed = KeyF10Pressed_cls"
| "type_of KeyF8Pressed = KeyF8Pressed_cls"
| "type_of KeyF2Pressed = KeyF2Pressed_cls"
| "type_of QuitRequested = QuitRequested_cls"
| "type_of (FullSTTDone transcript job_id) = FullSTTDone_cls"
| "type_of (FullSTTFail error_code error_hint job_id) = FullSTTFail_cls"
| "type_of (DoctorCompleted success error_code error_hint) = DoctorCompleted_cls"
| "type_of (AudioLevelUpdated level thread_id) = AudioLevelUpdated_cls"

text \<open>\<^verbatim>\<open>cls.__name__\<close>.\<close>

fun class_name :: "EventClass \<Rightarrow> string" where
  "class_name KeyF9Pressed_cls = ''KeyF9Pressed''"
| "class_name KeyF10Pressed_cls = ''KeyF10Pressed''"
| "class_name KeyF8Pressed_cls = ''KeyF8Pressed''"
| "class_name KeyF2Pressed_cls = ''KeyF2Pressed''"
| "class_name QuitRequested_cls = ''QuitRequested''"
| "class_name FullSTTDone_cls = ''FullSTTDone''"
| "class_name FullSTTFail_cls = ''FullSTTFail''"
| "class_name DoctorCompleted_cls = ''DoctorCompleted''"
| "class_name AudioLevelUpdated_cls = ''AudioLevelUpdated''"

text \<open>\<^verbatim>\<open>type(event).__name__\<close>, the only part of an event the state machine prints.\<close>

definition type_name :: "AppEvent \<Rightarrow> string" where
  "type_name event = class_name (type_of event)"


section \<open>The state machine (\<^verbatim>\<open>app/state_machine.py\<close>)\<close>

text \<open>
  The module logger is the audit sink. A record is the level and the formatted message;
  the handler's timestamp is added outside the state machine.
\<close>

datatype LogLevel = INFO | WARNING

type_synonym LogRecord = "LogLevel \<times> string"

text \<open>The object's only field is \<^verbatim>\<open>_current_state\<close>; \<open>audit_log\<close> is what the calls on
  \<^verbatim>\<open>logger\<close> have written so far, oldest first.\<close>

record StateMachine =
  current_state :: AppState
  audit_log :: "LogRecord list"

text \<open>\<^verbatim>\<open>__init__\<close>: the default initial state is \<^verbatim>\<open>INIT\<close>.\<close>

definition init_StateMachine :: "AppState \<Rightarrow> LogRecord list \<Rightarrow> StateMachine" where
  "init_StateMachine initial_state lg =
     \<lparr>current_state = initial_state,
      audit_log = lg @ [(INFO, ''StateMachine initialized with state: '' @ str_AppState initial_state)]\<rparr>"

text \<open>
  \<^verbatim>\<open>_calculate_transition\<close>: the \<^verbatim>\<open>isinstance\<close> chain in source order. The first component
  is what the function logs itself (the warning of the fall-through), the second its
  return value, \<open>None\<close> for Python's \<^verbatim>\<open>None\<close>.
\<close>

fun calculate_transition :: "AppState \<Rightarrow> AppEvent \<Rightarrow> LogRecord list \<times> AppState option" where
  "calculate_transition from_state KeyF9Pressed =
     ([], if from_state = READY then Some RECORDING
          else if from_state = RECORDING then Some PAUSED
          else if from_state = PAUSED then Some RECORDING
          else if from_state = DONE then Some RECORDING
          else None)"
| "calculate_transition from_state KeyF10Pressed =
     ([], if from_state = RECORDING then Some PROCESSING
          else if from_state = PAUSED then Some PROCESSING
          else None)"
| "calculate_transition from_state KeyF8Pressed =
     ([], if from_state = DONE then Some PROCESSING else None)"
| "calculate_transition from_state KeyF2Pressed =
     ([], if from_state \<in> set [READY, DONE, ERROR] then Some INIT else None)"
| "calculate_transition from_state (DoctorCompleted success error_code error_hint) =
     ([], if from_state = INIT then (if success then Some READY else Some ERROR)
          else None)"
| "calculate_transition from_state (FullSTTDone transcript job_id) =
     ([], if from_state = PROCESSING then Some DONE else None)"
| "calculate_transition from_state (FullSTTFail error_code error_hint job_id) =
     ([], if from_state = PROCESSING then Some ERROR else None)"
| "calculate_transition from_state event =
     ([(WARNING, ''Unknown event type: '' @ type_name event)], None)"

text \<open>
  \<^verbatim>\<open>transition\<close>: returns the new state or \<^verbatim>\<open>None\<close>, together with the object after the
  call. A blocked transition writes a warning and leaves \<^verbatim>\<open>_current_state\<close> alone.
\<close>

definition transition :: "StateMachine \<Rightarrow> AppEvent \<Rightarrow> AppState option \<times> StateMachine" where
  "transition sm event =
     (case calculate_transition (current_state sm) event of
        (logged, None) \<Rightarrow>
          (None,
           sm\<lparr>audit_log := audit_log sm @ logged @
              [(WARNING, ''Invalid transition blocked: '' @ str_AppState (current_state sm)
                  @ '' --'' @ type_name event @ ''--> (blocked)'')]\<rparr>)
      | (logged, Some new_state) \<Rightarrow>
          (Some new_state,
           sm\<lparr>current_state := new_state,
              audit_log := audit_log sm @ logged @
              [(INFO, ''State transition: '' @ str_AppState (current_state sm)
                  @ '' --'' @ type_name event @ ''--> '' @ str_AppState new_state)]\<rparr>))"

text \<open>\<^verbatim>\<open>get_allowed_transitions(state)\<close> with an explicit state: the list of event classes,
  in the order the source appends them.\<close>

fun get_allowed_transitions :: "AppState \<Rightarrow> EventClass list" where
  "get_allowed_transitions INIT = [DoctorCompleted_cls]"
| "get_allowed_transitions READY = [KeyF9Pressed_cls, KeyF2Pressed_cls, QuitRequested_cls]"
| "get_allowed_transitions RECORDING = [KeyF9Pressed_cls, KeyF10Pressed_cls, QuitRequested_cls]"
| "get_allowed_transitions PAUSED = [KeyF9Pressed_cls, KeyF10Pressed_cls, QuitRequested_cls]"
| "get_allowed_transitions PROCESSING = [FullSTTDone_cls, FullSTTFail_cls, QuitRequested_cls]"
| "get_allowed_transitions DONE =
     [KeyF9Pressed_cls, KeyF8Pressed_cls, KeyF2Pressed_cls, QuitRequested_cls]"
| "get_allowed_transitions ERROR = [KeyF2Pressed_cls, QuitRequested_cls]"

text \<open>The optional argument: \<^verbatim>\<open>None\<close> means the current state.\<close>

definition get_allowed_transitions_of :: "StateMachine \<Rightarrow> AppState option \<Rightarrow> EventClass list" where
  "get_allowed_transitions_of sm state =
     get_allowed_transitions (case state of None \<Rightarrow> current_state sm | Some s \<Rightarrow> s)"

text \<open>
  The specification's transition table (section 4.1), row by row, as a second definition
  to compare the code with. \<open>Target s\<close> is a tabulated next state, \<open>Terminal\<close> the
  ``terminal (process exit)'' entry of the \<^verbatim>\<open>QuitRequested\<close> row, \<open>Absent\<close> a pair with no row.
\<close>

datatype TableEntry = Target AppState | Terminal | Absent

fun spec_table :: "AppState \<Rightarrow> AppEvent \<Rightarrow> TableEntry" where
  "spec_table s QuitRequested = Terminal"
| "spec_table READY KeyF9Pressed = Target RECORDING"
| "spec_table RECORDING KeyF9Pressed = Target PAUSED"
| "spec_table PAUSED KeyF9Pressed = Target RECORDING"
| "spec_table DONE KeyF9Pressed = Target RECORDING"
| "spec_table RECORDING KeyF10Pressed = Target PROCESSING"
| "spec_table PAUSED KeyF10Pressed = Target PROCESSING"
| "spec_table DONE KeyF8Pressed = Target PROCESSING"
| "spec_table READY KeyF2Pressed = Target INIT"
| "spec_table DONE KeyF2Pressed = Target INIT"
| "spec_table ERROR KeyF2Pressed = Target INIT"
| "spec_table INIT (DoctorCompleted success error_code error_hint) =
     (if success then Target READY else Target ERROR)"
| "spec_table PROCESSING (FullSTTDone transcript job_id) = Target DONE"
| "spec_table PROCESSING (FullSTTFail error_code error_hint job_id) = Target ERROR"
| "spec_table s event = Absent"

text \<open>The records one call of \<^verbatim>\<open>transition\<close> appends to the log.\<close>

definition logged_by_transition :: "StateMachine \<Rightarrow> AppEvent \<Rightarrow> LogRecord list" where
  "logged_by_transition sm event =
     drop (length (audit_log sm)) (audit_log (snd (transition sm event)))"



text \<open>``Called in state \<open>s\<close> with \<open>event\<close>, \<^verbatim>\<open>transition\<close> returns \<open>t\<close> and
  \<^verbatim>\<open>current_state\<close> is \<open>t\<close> afterwards'', whatever the rest of the object holds.\<close>

definition accepts_to :: "StateMachine \<Rightarrow> AppState \<Rightarrow> AppEvent \<Rightarrow> AppState \<Rightarrow> bool" where
  "accepts_to sm s event t =
     (fst (transition (sm\<lparr>current_state := s\<rparr>) event) = Some t \<and>
      current_state (snd (transition (sm\<lparr>current_state := s\<rparr>) event)) = t)"

text \<open>
  A session in which a first full transcription (job \<open>old_job\<close>) has completed and the
  user has pressed F8 (Redo) in \<^verbatim>\<open>DONE\<close>: the machine is back in \<^verbatim>\<open>PROCESSING\<close> for a new job.
\<close>

definition redo_scenario :: "string \<Rightarrow> StateMachine" where
  "redo_scenario old_job =
     snd (transition
       (snd (transition (init_StateMachine PROCESSING []) (FullSTTDone ''first result'' old_job)))
       KeyF8Pressed)"


section \<open>The snippet tracker (\<^verbatim>\<open>services/snippet_tracker_service.py\<close>)\<close>

text \<open>
  The fields the lock guards, and the stop event. \<^verbatim>\<open>cumulative_time\<close> and
  \<^verbatim>\<open>threshold_seconds\<close> are Python floats.
\<close>

record SnippetTracker =
  threshold_seconds :: rat
  is_running :: bool
  is_paused :: bool
  cumulative_time :: rat
  snippet_triggered :: bool
  stop_event :: bool

text \<open>\<^verbatim>\<open>__init__\<close>; the default of \<^verbatim>\<open>threshold_seconds\<close> is 8.0.\<close>

definition init_SnippetTracker :: "rat \<Rightarrow> SnippetTracker" where
  "init_SnippetTracker threshold =
     \<lparr>threshold_seconds = threshold, is_running = False, is_paused = False,
      cumulative_time = 0, snippet_triggered = False, stop_event = False\<rparr>"












text \<open>The state \<^verbatim>\<open>stop\<close> leaves behind (and \<^verbatim>\<open>__init__\<close> sets up).\<close>

definition reset_state :: "SnippetTracker \<Rightarrow> bool" where
  "reset_state t \<longleftrightarrow>
     \<not> is_running t \<and> \<not> is_paused t \<and> cumulative_time t = 0 \<and> \<not> snippet_triggered t"



section \<open>The recording buffer (\<^verbatim>\<open>services/recording_service.py\<close>)\<close>

text \<open>
  The fields the two readers use: \<^verbatim>\<open>_chunks\<close>, the flattened blocks the stream callback
  has appended, and \<^verbatim>\<open>_samplerate\<close>. A float32 sample is carried as a rational.
\<close>

record RecordingService =
  chunks :: "rat list list"
  samplerate :: int

text \<open>\<^verbatim>\<open>int(x)\<close> on a float: truncation towards zero.\<close>

definition py_int :: "rat \<Rightarrow> int" where
  "py_int x = (if 0 \<le> x then \<lfloor>x\<rfloor> else \<lceil>x\<rceil>)"

text \<open>The slice \<^verbatim>\<open>xs[first:]\<close>: a negative index counts from the end, and the index is
  clamped to the array. In particular \<^verbatim>\<open>xs[-0:]\<close> is \<^verbatim>\<open>xs[0:]\<close>, the whole array.\<close>

definition slice_from :: "'a list \<Rightarrow> int \<Rightarrow> 'a list" where
  "slice_from xs first =
     (let n = int (length xs);
          s = (if first < 0 then max (first + n) 0 else min first n)
      in drop (nat s) xs)"

text \<open>\<^verbatim>\<open>get_snippet(seconds)\<close>: the returned array and the service after the call.
  \<^verbatim>\<open>seconds\<close> is a float, so \<^verbatim>\<open>seconds * self._samplerate\<close> is a float product; the sample rate
  is an integer small enough to be a float exactly.\<close>

definition get_snippet :: "RecordingService \<Rightarrow> rat \<Rightarrow> rat list \<times> RecordingService" where
  "get_snippet rs seconds =
     (if chunks rs = [] then ([], rs)
      else
        (let buf = concat (chunks rs);
             n = py_int (float_mul seconds (of_int (samplerate rs)))
         in if int (length buf) \<le> n then (buf, rs)
            else (slice_from buf (- n), rs)))"

text \<open>\<^verbatim>\<open>get_full()\<close>.\<close>

definition get_full :: "RecordingService \<Rightarrow> rat list \<times> RecordingService" where
  "get_full rs = (if chunks rs = [] then ([], rs) else (concat (chunks rs), rs))"

text \<open>The last \<open>k\<close> elements of a list (all of it when it is shorter), as the contract of
  \<^verbatim>\<open>get_snippet\<close> is worded.\<close>

definition last_samples :: "nat \<Rightarrow> 'a list \<Rightarrow> 'a list" where
  "last_samples k xs = drop (length xs - k) xs"


section \<open>The preflight checks (\<^verbatim>\<open>services/doctor_service.py\<close>)\<close>

text \<open>\<^verbatim>\<open>DoctorCheckResult\<close>, with the fields of its constructor.\<close>

record DoctorCheckResult =
  success :: bool
  error_code :: "string option"
  error_hint :: "string option"
  mic_ok :: bool
  model_ok :: bool

text \<open>
  What the checks find outside the program. \<^verbatim>\<open>load_config\<close> either returns a configuration
  (of which the checks read \<^verbatim>\<open>stt.model\<close> and \<^verbatim>\<open>audio.device\<close>), raises an exception of some
  type, or leaves through \<^verbatim>\<open>sys.exit(1)\<close>, which is a \<^verbatim>\<open>SystemExit\<close> and passes every
  \<^verbatim>\<open>except Exception\<close>.
\<close>

record AppConfig =
  audio_device :: string
  stt_model :: string

datatype ConfigOutcome = ConfigExits | ConfigRaises string | ConfigLoaded AppConfig

text \<open>Constructing the \<^verbatim>\<open>WhisperModel\<close>: it loads, raises an \<^verbatim>\<open>ImportError\<close>, or raises an
  exception of another type (named).\<close>

datatype LoadOutcome = ModelLoads | LoadImportError | LoadRaises string

text \<open>
  The ways through \<^verbatim>\<open>audio_capture.check_microphone\<close>: \<^verbatim>\<open>sounddevice\<close> cannot be
  imported; \<^verbatim>\<open>query_devices\<close> raises; it returns nothing; it returns no input device; a
  tested device works (its identifier, the empty string for the default device); every
  tested device fails (with the last error message); or an exception escapes the function.
\<close>

datatype MicProbe =
    SounddeviceMissing
  | QueryRaises string
  | NoDevices
  | NoInputDevices
  | DeviceWorks string
  | AllDevicesFail "string option"
  | ProbeRaises string

record DoctorEnv =
  data_dir_ok :: bool
  subdir_mkdir_ok :: "string \<Rightarrow> bool"
  subdir_write_ok :: "string \<Rightarrow> bool"
  requirements_lock_exists :: bool
  faster_whisper_installed :: bool
  load_config :: ConfigOutcome
  whisper_model :: "string \<Rightarrow> LoadOutcome"
  microphone :: MicProbe
  update_audio_device_ok :: bool

text \<open>An exception that is not an \<^verbatim>\<open>Exception\<close>.\<close>

datatype BaseException = SystemExit

text \<open>What a run of the checks does that can be seen from outside: the checks it enters,
  and the device it writes to \<^verbatim>\<open>config.toml\<close>.\<close>

datatype DoctorEffect =
    CheckPaths | CheckRequirements | CheckSttModel | CheckMicrophone
  | UpdateAudioDevice string

definition required_dirs :: "string list" where
  "required_dirs = [''recordings'', ''transcripts'', ''db'', ''logs'', ''cache'']"

text \<open>The loop of \<^verbatim>\<open>_check_paths\<close>: a failing \<^verbatim>\<open>mkdir\<close> reaches the outer handler, a failing
  write or unlink the inner one.\<close>

fun check_subdirs :: "DoctorEnv \<Rightarrow> string list \<Rightarrow> bool \<times> string option" where
  "check_subdirs env [] = (True, None)"
| "check_subdirs env (subdir # rest) =
     (if \<not> subdir_mkdir_ok env subdir
      then (False, Some ''Cannot create/access data directories'')
      else if \<not> subdir_write_ok env subdir
      then (False, Some (''Cannot write to '' @ subdir @ ''/ directory''))
      else check_subdirs env rest)"

definition check_paths :: "DoctorEnv \<Rightarrow> bool \<times> string option" where
  "check_paths env =
     (if \<not> data_dir_ok env then (False, Some ''Cannot create/access data directories'')
      else check_subdirs env required_dirs)"

definition check_requirements :: "DoctorEnv \<Rightarrow> bool \<times> string option" where
  "check_requirements env =
     (if requirements_lock_exists env then (True, None)
      else (False, Some ''requirements.lock.txt not found (informational)''))"

text \<open>\<^verbatim>\<open>_check_stt_model\<close>: the model name is \<^verbatim>\<open>"small"\<close> unless the configuration loads.\<close>

definition load_model :: "DoctorEnv \<Rightarrow> string \<Rightarrow> bool \<times> string option" where
  "load_model env model_name =
     (case whisper_model env model_name of
        ModelLoads \<Rightarrow> (True, None)
      | LoadImportError \<Rightarrow> (False, Some ''faster-whisper not installed'')
      | LoadRaises name \<Rightarrow> (False, Some (''Cannot load STT model: '' @ name)))"

definition check_stt_model :: "DoctorEnv \<Rightarrow> BaseException + (bool \<times> string option)" where
  "check_stt_model env =
     (if \<not> faster_whisper_installed env then Inr (False, Some ''faster-whisper not installed'')
      else
        (case load_config env of
           ConfigExits \<Rightarrow> Inl SystemExit
         | ConfigRaises name \<Rightarrow> Inr (load_model env ''small'')
         | ConfigLoaded config \<Rightarrow> Inr (load_model env (stt_model config))))"

text \<open>\<^verbatim>\<open>audio_capture.check_microphone\<close>, by its return statements; \<open>Inl\<close> is the type name
  of an exception that escapes.\<close>

fun check_microphone :: "MicProbe \<Rightarrow> string + (bool \<times> string option \<times> string option)" where
  "check_microphone SounddeviceMissing = Inr (False, Some ''sounddevice not installed'', None)"
| "check_microphone (QueryRaises name) =
     Inr (False, Some (''Cannot query audio devices: '' @ name), None)"
| "check_microphone NoDevices = Inr (False, Some ''No audio devices found'', None)"
| "check_microphone NoInputDevices =
     Inr (False, Some ''No input devices (microphones) found'', None)"
| "check_microphone (DeviceWorks device_identifier) = Inr (True, None, Some device_identifier)"
| "check_microphone (AllDevicesFail last_error) =
     Inr (False,
          Some (case last_error of
                  None \<Rightarrow> ''No working microphone device found''
                | Some e \<Rightarrow> if e = [] then ''No working microphone device found'' else e),
          None)"
| "check_microphone (ProbeRaises name) = Inl name"

text \<open>\<^verbatim>\<open>DoctorService._check_microphone\<close>: loads the configuration, probes, and saves a
  working device that differs from the configured one; a failure to save is only logged.\<close>

definition doctor_check_microphone ::
  "DoctorEnv \<Rightarrow> DoctorEffect list \<times> (BaseException + (bool \<times> string option \<times> string option))" where
  "doctor_check_microphone env =
     (case load_config env of
        ConfigExits \<Rightarrow> ([], Inl SystemExit)
      | ConfigRaises name \<Rightarrow> ([], Inr (False, Some (''Microphone check error: '' @ name), None))
      | ConfigLoaded config \<Rightarrow>
          (case check_microphone (microphone env) of
             Inl name \<Rightarrow> ([], Inr (False, Some (''Microphone check error: '' @ name), None))
           | Inr (ok, hint, device_identifier) \<Rightarrow>
               ((case device_identifier of
                   None \<Rightarrow> []
                 | Some d \<Rightarrow>
                     if ok \<and> d \<noteq> audio_device config \<and> update_audio_device_ok env
                     then [UpdateAudioDevice d] else []),
                Inr (ok, hint, device_identifier))))"

text \<open>\<^verbatim>\<open>_perform_checks\<close>: what it does, and what it returns or lets through.\<close>

definition perform_checks ::
  "DoctorEnv \<Rightarrow> DoctorEffect list \<times> (BaseException + DoctorCheckResult)" where
  "perform_checks env =
     (let path_check = check_paths env in
      if \<not> fst path_check then
        ([CheckPaths],
         Inr \<lparr>success = False, error_code = Some ''PATH_NOT_WRITABLE'',
              error_hint = snd path_check, mic_ok = False, model_ok = False\<rparr>)
      else
        (let req_check = check_requirements env in
         case check_stt_model env of
           Inl exit \<Rightarrow> ([CheckPaths, CheckRequirements, CheckSttModel], Inl exit)
         | Inr model_check \<Rightarrow>
             if \<not> fst model_check then
               ([CheckPaths, CheckRequirements, CheckSttModel],
                Inr \<lparr>success = False, error_code = Some ''MODEL_NOT_LOADABLE'',
                     error_hint = snd model_check, mic_ok = True, model_ok = False\<rparr>)
             else
               (case doctor_check_microphone env of
                  (saved, Inl exit) \<Rightarrow>
                    ([CheckPaths, CheckRequirements, CheckSttModel, CheckMicrophone] @ saved,
                     Inl exit)
                | (saved, Inr (mic_ok', mic_error_hint, mic_device)) \<Rightarrow>
                    if \<not> mic_ok' then
                      ([CheckPaths, CheckRequirements, CheckSttModel, CheckMicrophone] @ saved,
                       Inr \<lparr>success = False, error_code = Some ''MIC_NOT_AVAILABLE'',
                            error_hint = mic_error_hint, mic_ok = False, model_ok = True\<rparr>)
                    else
                      ([CheckPaths, CheckRequirements, CheckSttModel, CheckMicrophone] @ saved,
                       Inr \<lparr>success = True, error_code = None, error_hint = None,
                            mic_ok = True, model_ok = True\<rparr>))))"

text \<open>The checks a run has entered, in order.\<close>

fun is_check :: "DoctorEffect \<Rightarrow> bool" where
  "is_check (UpdateAudioDevice d) = False"
| "is_check c = True"

text \<open>An environment in which everything works, to vary.\<close>

definition working_env :: DoctorEnv where
  "working_env =
     \<lparr>data_dir_ok = True, subdir_mkdir_ok = (\<lambda>d. True), subdir_write_ok = (\<lambda>d. True),
      requirements_lock_exists = False, faster_whisper_installed = True,
      load_config = ConfigLoaded \<lparr>audio_device = '''', stt_model = ''small''\<rparr>,
      whisper_model = (\<lambda>name. ModelLoads), microphone = DeviceWorks ''USB Mic'',
      update_audio_device_ok = True\<rparr>"


section \<open>The speech-to-text service (\<^verbatim>\<open>services/stt_service.py\<close>)\<close>

text \<open>
  An audio array: its \<^verbatim>\<open>dtype\<close> and its samples. \<^verbatim>\<open>astype(np.float32)\<close> changes the
  \<^verbatim>\<open>dtype\<close>; the rounding of the values is not modelled.
\<close>

datatype DType = Float32 | Float64 | Int16

record ndarray =
  dtype :: DType
  samples :: "rat list"

definition astype_float32 :: "ndarray \<Rightarrow> ndarray" where
  "astype_float32 a = a\<lparr>dtype := Float32\<rparr>"

text \<open>A segment of a transcription: its \<^verbatim>\<open>text\<close>, and the metrics it may carry
  (\<^verbatim>\<open>hasattr\<close>).\<close>

record Segment =
  segment_text :: string
  avg_logprob :: "rat option"
  compression_ratio :: "rat option"
  no_speech_prob :: "rat option"

text \<open>
  The loaded engine, as what \<^verbatim>\<open>model.transcribe(audio, language, beam_size, initial_prompt)\<close>
  followed by \<^verbatim>\<open>list(segments)\<close> does with an array under the service's configuration: it
  raises an exception (type name and message) or yields the segments.
\<close>

datatype TranscribeOutcome = TranscribeRaises string string | Transcribed "Segment list"

type_synonym WhisperModel = "ndarray \<Rightarrow> TranscribeOutcome"

text \<open>The three result classes, fields in constructor order.\<close>

record STTServiceResult =
  r_success :: bool
  r_error_hint :: "string option"

record SnippetTranscriptionResult =
  s_success :: bool
  s_transcript :: "string option"
  s_quality :: "string option"
  s_error_hint :: "string option"

record FullTranscriptionResult =
  f_success :: bool
  f_transcript :: "string option"
  f_error_code :: "string option"
  f_error_hint :: "string option"
  f_job_id :: string

text \<open>
  The service: \<^verbatim>\<open>_is_ready\<close> and \<^verbatim>\<open>model\<close>. The method \<^verbatim>\<open>_calculate_quality\<close>, a heuristic
  over the segments' float metrics that only the success path of a snippet calls, is
  carried as a parameter.
\<close>

record STTService =
  is_ready :: bool
  model :: "WhisperModel option"
  calculate_quality :: "Segment list \<Rightarrow> string"

definition init_STTService :: "(Segment list \<Rightarrow> string) \<Rightarrow> STTService" where
  "init_STTService q = \<lparr>is_ready = False, model = None, calculate_quality = q\<rparr>"

text \<open>
  A Python \<^verbatim>\<open>str\<close> is carried as its UTF-8 encoding, an ASCII character being one byte.
  \<^verbatim>\<open>str.strip()\<close> removes from both ends the characters for which \<^verbatim>\<open>str.isspace()\<close> holds:
  U+0009 to U+000D, U+001C to U+0020, U+0085, U+00A0, U+1680, U+2000 to U+200A, U+2028,
  U+2029, U+202F, U+205F and U+3000. They take one, two or three bytes.
\<close>

definition is_space :: "char \<Rightarrow> bool" where
  "is_space c =
     (c \<in> set [CHR 0x09, CHR 0x0A, CHR 0x0B, CHR 0x0C, CHR 0x0D,
                CHR 0x1C, CHR 0x1D, CHR 0x1E, CHR 0x1F, CHR '' ''])"

definition is_space2 :: "char \<Rightarrow> char \<Rightarrow> bool" where
  "is_space2 a b = (a = CHR 0xC2 \<and> b \<in> set [CHR 0x85, CHR 0xA0])"

definition is_space3 :: "char \<Rightarrow> char \<Rightarrow> char \<Rightarrow> bool" where
  "is_space3 a b c =
     (a = CHR 0xE1 \<and> b = CHR 0x9A \<and> c = CHR 0x80 \<or>
      a = CHR 0xE2 \<and> b = CHR 0x80 \<and>
        c \<in> set [CHR 0x80, CHR 0x81, CHR 0x82, CHR 0x83, CHR 0x84, CHR 0x85, CHR 0x86,
                   CHR 0x87, CHR 0x88, CHR 0x89, CHR 0x8A, CHR 0xA8, CHR 0xA9, CHR 0xAF] \<or>
      a = CHR 0xE2 \<and> b = CHR 0x81 \<and> c = CHR 0x9F \<or>
      a = CHR 0xE3 \<and> b = CHR 0x80 \<and> c = CHR 0x80)"

text \<open>\<^verbatim>\<open>str.lstrip()\<close>.\<close>

fun lstrip :: "string \<Rightarrow> string" where
  "lstrip [] = []"
| "lstrip [a] = (if is_space a then [] else [a])"
| "lstrip [a, b] =
     (if is_space a then lstrip [b]
      else if is_space2 a b then []
      else [a, b])"
| "lstrip (a # b # c # s) =
     (if is_space a then lstrip (b # c # s)
      else if is_space2 a b then lstrip (c # s)
      else if is_space3 a b c then lstrip s
      else a # b # c # s)"

text \<open>\<^verbatim>\<open>str.rstrip()\<close> on the reversed string: the last byte comes first.\<close>

fun rstrip_rev :: "string \<Rightarrow> string" where
  "rstrip_rev [] = []"
| "rstrip_rev [c] = (if is_space c then [] else [c])"
| "rstrip_rev [c, b] =
     (if is_space c then rstrip_rev [b]
      else if is_space2 b c then []
      else [c, b])"
| "rstrip_rev (c # b # a # s) =
     (if is_space c then rstrip_rev (b # a # s)
      else if is_space2 b c then rstrip_rev (a # s)
      else if is_space3 a b c then rstrip_rev s
      else c # b # a # s)"

definition strip :: "string \<Rightarrow> string" where
  "strip s = rev (rstrip_rev (rev (lstrip s)))"

text \<open>\<^verbatim>\<open>" ".join(...)\<close>.\<close>

fun join_space :: "string list \<Rightarrow> string" where
  "join_space [] = []"
| "join_space [x] = x"
| "join_space (x # y # ys) = x @ '' '' @ join_space (y # ys)"

definition transcript_of :: "Segment list \<Rightarrow> string" where
  "transcript_of segments_list = strip (join_space (map segment_text segments_list))"

text \<open>What a worker of the service does that others can see: a call of the model, and the
  call of the request's callback with the result.\<close>

datatype STTEffect =
    ModelTranscribe ndarray
  | FullCallback FullTranscriptionResult
  | SnippetCallback SnippetTranscriptionResult

text \<open>The result of a full transcription refused because the engine is not ready.\<close>

definition stt_not_ready :: "string \<Rightarrow> FullTranscriptionResult" where
  "stt_not_ready job_id =
     \<lparr>f_success = False, f_transcript = None, f_error_code = Some ''STT_NOT_READY'',
      f_error_hint = Some ''STT nicht bereit'', f_job_id = job_id\<rparr>"

text \<open>\<^verbatim>\<open>_transcribe_full_internal\<close>. The sixteenth character of the hint of the invalid-audio
  branch is U+CE72 in the source file, in UTF-8 the bytes EC B9 B2.\<close>

definition transcribe_full_internal ::
  "STTService \<Rightarrow> ndarray \<Rightarrow> string \<Rightarrow> STTEffect list \<times> FullTranscriptionResult" where
  "transcribe_full_internal svc audio_data job_id =
     (case (if is_ready svc then model svc else None) of
        None \<Rightarrow> ([], stt_not_ready job_id)
      | Some m \<Rightarrow>
          if length (samples audio_data) = 0 then
            ([], \<lparr>f_success = False, f_transcript = None, f_error_code = Some ''AUDIO_INVALID'',
                  f_error_hint = Some (''Audio-Daten ung'' @ [CHR 0xEC, CHR 0xB9, CHR 0xB2] @ ''ltig''),
                  f_job_id = job_id\<rparr>)
          else
            (let audio = (if dtype audio_data \<noteq> Float32 then astype_float32 audio_data
                          else audio_data)
             in case m audio of
                  Transcribed segments_list \<Rightarrow>
                    ([ModelTranscribe audio],
                     \<lparr>f_success = True, f_transcript = Some (transcript_of segments_list),
                      f_error_code = None, f_error_hint = None, f_job_id = job_id\<rparr>)
                | TranscribeRaises name message \<Rightarrow>
                    ([ModelTranscribe audio],
                     \<lparr>f_success = False, f_transcript = None, f_error_code = Some name,
                      f_error_hint = Some message, f_job_id = job_id\<rparr>)))"

text \<open>\<^verbatim>\<open>_transcribe_snippet_internal\<close>.\<close>

definition transcribe_snippet_internal ::
  "STTService \<Rightarrow> ndarray \<Rightarrow> STTEffect list \<times> SnippetTranscriptionResult" where
  "transcribe_snippet_internal svc audio_data =
     (case (if is_ready svc then model svc else None) of
        None \<Rightarrow>
          ([], \<lparr>s_success = False, s_transcript = None, s_quality = None,
                s_error_hint = Some ''STT nicht bereit''\<rparr>)
      | Some m \<Rightarrow>
          if length (samples audio_data) = 0 then
            ([], \<lparr>s_success = False, s_transcript = None, s_quality = None,
                  s_error_hint = Some (''Audio-Daten ung'' @ [CHR 0xEC, CHR 0xB9, CHR 0xB2] @ ''ltig'')\<rparr>)
          else
            (let audio = (if dtype audio_data \<noteq> Float32 then astype_float32 audio_data
                          else audio_data)
             in case m audio of
                  Transcribed segments_list \<Rightarrow>
                    ([ModelTranscribe audio],
                     \<lparr>s_success = True, s_transcript = Some (transcript_of segments_list),
                      s_quality = Some (calculate_quality svc segments_list),
                      s_error_hint = None\<rparr>)
                | TranscribeRaises name message \<Rightarrow>
                    ([ModelTranscribe audio],
                     \<lparr>s_success = False, s_transcript = None, s_quality = None,
                      s_error_hint = Some (''STT-Fehler: '' @ name)\<rparr>)))"

text \<open>
  The thread a request starts: \<^verbatim>\<open>transcribe_full\<close> starts either a thread that only calls
  the callback with the failure it has built, or one that runs \<^verbatim>\<open>_run_full_transcription\<close>;
  \<^verbatim>\<open>transcribe_snippet\<close> always starts one that runs \<^verbatim>\<open>_run_transcription\<close>.
\<close>

datatype STTTask =
    CallbackWith FullTranscriptionResult
  | RunFullTranscription ndarray string
  | RunTranscription ndarray

definition transcribe_full :: "STTService \<Rightarrow> ndarray \<Rightarrow> string \<Rightarrow> STTTask" where
  "transcribe_full svc audio_data job_id =
     (if \<not> is_ready svc \<or> model svc = None then CallbackWith (stt_not_ready job_id)
      else RunFullTranscription audio_data job_id)"

definition transcribe_snippet :: "STTService \<Rightarrow> ndarray \<Rightarrow> STTTask" where
  "transcribe_snippet svc audio_data = RunTranscription audio_data"

text \<open>The body of a started thread, run against the service as it is when the thread
  runs.\<close>

fun run_task :: "STTService \<Rightarrow> STTTask \<Rightarrow> STTEffect list" where
  "run_task svc (CallbackWith fail) = [FullCallback fail]"
| "run_task svc (RunFullTranscription audio_data job_id) =
     fst (transcribe_full_internal svc audio_data job_id)
       @ [FullCallback (snd (transcribe_full_internal svc audio_data job_id))]"
| "run_task svc (RunTranscription audio_data) =
     fst (transcribe_snippet_internal svc audio_data)
       @ [SnippetCallback (snd (transcribe_snippet_internal svc audio_data))]"

text \<open>
  \<^verbatim>\<open>_load_and_warmup\<close>, run by the initialisation thread: importing or constructing the
  engine can fail; a constructed engine is stored, warmed up on one second of silence, and
  only then is \<^verbatim>\<open>_is_ready\<close> set.
\<close>

datatype EngineLoad = ImportFails | ConstructRaises string | Constructed WhisperModel

definition silence :: ndarray where
  "silence = \<lparr>dtype = Float32, samples = replicate 16000 0\<rparr>"

definition load_and_warmup :: "STTService \<Rightarrow> EngineLoad \<Rightarrow> STTService \<times> STTServiceResult" where
  "load_and_warmup svc engine =
     (case engine of
        ImportFails \<Rightarrow>
          (svc, \<lparr>r_success = False, r_error_hint = Some ''faster-whisper not installed''\<rparr>)
      | ConstructRaises name \<Rightarrow>
          (svc, \<lparr>r_success = False, r_error_hint = Some (''Cannot load STT model: '' @ name)\<rparr>)
      | Constructed m \<Rightarrow>
          (case m silence of
             TranscribeRaises name message \<Rightarrow>
               (svc\<lparr>model := Some m\<rparr>,
                \<lparr>r_success = False, r_error_hint = Some (''Cannot load STT model: '' @ name)\<rparr>)
           | Transcribed segments_list \<Rightarrow>
               (svc\<lparr>model := Some m, is_ready := True\<rparr>,
                \<lparr>r_success = True, r_error_hint = None\<rparr>)))"

text \<open>A request, an engine and a service for examples: half a second's worth of three
  samples, an engine that hears one word, a service created but not yet loaded.\<close>

definition three_samples :: ndarray where
  "three_samples = \<lparr>dtype = Float32, samples = [1 / 2, - 1 / 4, 1 / 8]\<rparr>"

definition one_word_engine :: WhisperModel where
  "one_word_engine audio =
     Transcribed [\<lparr>segment_text = '' hallo'', avg_logprob = None, compression_ratio = None,
                   no_speech_prob = None\<rparr>]"

definition fresh_service :: STTService where
  "fresh_service = init_STTService (\<lambda>segments_list. ''unknown'')"

section \<open>Float arithmetic, evaluated\<close>

lemma floor_numeral_divide:
  "\<lfloor>(numeral a :: rat) / numeral b\<rfloor> = numeral a div numeral b"
  using floor_divide_of_int_eq [of "numeral a" "numeral b", where ?'a = rat] by simp

lemmas float_eval =
  float_add_def float_mul_def round_double_def normalise.simps round_half_even_def pow2_def
  Let_def floor_numeral_divide

lemma round_double_0: "round_double 0 = 0"
  by (simp add: float_eval)


section \<open>Transitions of the table\<close>

lemma transition_result:
  "fst (transition sm event) = snd (calculate_transition (current_state sm) event)"
  by (cases "calculate_transition (current_state sm) event")
     (auto simp: transition_def split: option.splits)

lemma transition_state:
  "current_state (snd (transition sm event)) =
     (case snd (calculate_transition (current_state sm) event) of
        None \<Rightarrow> current_state sm | Some s \<Rightarrow> s)"
  by (cases "calculate_transition (current_state sm) event")
     (auto simp: transition_def split: option.splits)

lemma transition_log_append:
  "audit_log (snd (transition sm event)) = audit_log sm @ logged_by_transition sm event"
  by (cases "calculate_transition (current_state sm) event")
     (auto simp: logged_by_transition_def transition_def split: option.splits)

lemma accepts_to_iff:
  "accepts_to sm s event t \<longleftrightarrow> snd (calculate_transition s event) = Some t"
  by (cases "calculate_transition s event")
     (auto simp: accepts_to_def transition_def split: option.splits)

text \<open>
  Claim C1. For every row of the transition table other than the \<^verbatim>\<open>QuitRequested\<close> row,
  \<^verbatim>\<open>transition\<close> called in the row's state with an event of the row's kind returns the
  tabulated target and sets \<^verbatim>\<open>current_state\<close> to it. The payloads of \<^verbatim>\<open>FullSTTDone\<close>,
  \<^verbatim>\<open>FullSTTFail\<close> and \<^verbatim>\<open>DoctorCompleted\<close> (other than \<^verbatim>\<open>success\<close>) are arbitrary.
\<close>

theorem table_rows_accepted:
  "accepts_to sm READY KeyF9Pressed RECORDING \<and>
   accepts_to sm RECORDING KeyF9Pressed PAUSED \<and>
   accepts_to sm PAUSED KeyF9Pressed RECORDING \<and>
   accepts_to sm DONE KeyF9Pressed RECORDING \<and>
   accepts_to sm RECORDING KeyF10Pressed PROCESSING \<and>
   accepts_to sm PAUSED KeyF10Pressed PROCESSING \<and>
   accepts_to sm DONE KeyF8Pressed PROCESSING \<and>
   accepts_to sm READY KeyF2Pressed INIT \<and>
   accepts_to sm DONE KeyF2Pressed INIT \<and>
   accepts_to sm ERROR KeyF2Pressed INIT \<and>
   accepts_to sm INIT (DoctorCompleted True ec eh) READY \<and>
   accepts_to sm INIT (DoctorCompleted False ec eh) ERROR \<and>
   accepts_to sm PROCESSING (FullSTTDone transcript job_id) DONE \<and>
   accepts_to sm PROCESSING (FullSTTFail code hint job_id') ERROR"
  by (simp add: accepts_to_iff)

text \<open>The code and the table agree on every tabulated target, in both directions.\<close>

lemma spec_table_Target:
  "spec_table s event = Target t \<longleftrightarrow> snd (calculate_transition s event) = Some t"
  by (cases s; cases event) (auto split: if_splits)

lemma spec_table_Absent:
  "spec_table s event = Absent \<Longrightarrow> snd (calculate_transition s event) = None"
  by (cases s; cases event) (auto split: if_splits)

text \<open>
  Claim C2. For a pair of state and event that has no row in the table,
  \<^verbatim>\<open>transition\<close> returns \<^verbatim>\<open>None\<close> and \<^verbatim>\<open>current_state\<close> is what it was. The call cannot
  raise: no branch of \<^verbatim>\<open>transition\<close> or \<^verbatim>\<open>_calculate_transition\<close> has a failing operation,
  and the model has a result for every input. An event of a kind the machine does not
  know (\<^verbatim>\<open>AudioLevelUpdated\<close> is the one the repository defines) is rejected in every state.
\<close>

theorem rejected_outside_table:
  "spec_table (current_state sm) event = Absent \<Longrightarrow>
     (fst (transition sm event) = None \<and>
      current_state (snd (transition sm event)) = current_state sm) \<and>
     (fst (transition sm (AudioLevelUpdated level thread_id)) = None \<and>
      current_state (snd (transition sm (AudioLevelUpdated level thread_id))) = current_state sm)"
  by (simp add: transition_result transition_state spec_table_Absent)

theorem rejected_outside_table_witness:
  "spec_table (current_state (init_StateMachine INIT [])) KeyF9Pressed = Absent \<and>
   fst (transition (init_StateMachine INIT []) KeyF9Pressed) = None \<and>
   current_state (snd (transition (init_StateMachine INIT []) KeyF9Pressed)) = INIT \<and>
   fst (transition (init_StateMachine INIT []) (AudioLevelUpdated (1 / 2) 7)) = None"
  using rejected_outside_table [of "init_StateMachine INIT []" KeyF9Pressed "1 / 2" 7]
  by (simp add: init_StateMachine_def)

text \<open>
  Claim C3, as stated, fails. The state machine keeps no job identifier and never reads
  the \<^verbatim>\<open>job_id\<close> of an event: after a Redo has re-entered \<^verbatim>\<open>PROCESSING\<close>, a
  \<^verbatim>\<open>FullSTTDone\<close> that still carries the identifier of the first job is accepted and
  moves the state to \<^verbatim>\<open>DONE\<close>.
\<close>

theorem late_FullSTTDone_counterexample:
  "current_state (redo_scenario ''1'') = PROCESSING \<and>
   fst (transition (redo_scenario ''1'') (FullSTTDone ''late result'' ''1'')) = Some DONE \<and>
   current_state (snd (transition (redo_scenario ''1'') (FullSTTDone ''late result'' ''1'')))
     \<noteq> PROCESSING"
  by (simp add: redo_scenario_def transition_def init_StateMachine_def)

text \<open>
  Claim C3, amended. What \<^verbatim>\<open>transition\<close> does with a \<^verbatim>\<open>FullSTTDone\<close> depends on the
  current state alone, for every transcript and every job identifier: in \<^verbatim>\<open>PROCESSING\<close>
  it is accepted and the state becomes \<^verbatim>\<open>DONE\<close>; in any other state (the machine has
  already left \<^verbatim>\<open>PROCESSING\<close>) it is rejected and the state stays.
\<close>

theorem FullSTTDone_ignores_job_id:
  "fst (transition sm (FullSTTDone transcript job_id)) =
     (if current_state sm = PROCESSING then Some DONE else None) \<and>
   current_state (snd (transition sm (FullSTTDone transcript job_id))) =
     (if current_state sm = PROCESSING then DONE else current_state sm)"
  by (simp add: transition_result transition_state)

text \<open>
  Claim C4, as stated, fails: \<^verbatim>\<open>_calculate_transition\<close> has no branch for
  \<^verbatim>\<open>QuitRequested\<close>, and the result type has no terminal outcome. In \<^verbatim>\<open>INIT\<close> the event is
  rejected.
\<close>

theorem QuitRequested_counterexample:
  "fst (transition (init_StateMachine INIT []) QuitRequested) = None \<and>
   current_state (snd (transition (init_StateMachine INIT []) QuitRequested)) = INIT"
  by (simp add: transition_def init_StateMachine_def)

text \<open>
  Claim C4, amended. In \<^verbatim>\<open>INIT\<close> a \<^verbatim>\<open>QuitRequested\<close> is a rejected transition:
  \<^verbatim>\<open>transition\<close> returns \<^verbatim>\<open>None\<close>, the state stays \<^verbatim>\<open>INIT\<close>, and
  \<^verbatim>\<open>get_allowed_transitions\<close> does not list the event there (``only DoctorCompleted is
  allowed''). Nothing is said here about the other six states.
\<close>

theorem QuitRequested_rejected_in_INIT:
  "fst (transition (sm\<lparr>current_state := INIT\<rparr>) QuitRequested) = None \<and>
   current_state (snd (transition (sm\<lparr>current_state := INIT\<rparr>) QuitRequested)) = INIT \<and>
   QuitRequested_cls \<notin> set (get_allowed_transitions INIT)"
  by (simp add: transition_result transition_state)

text \<open>
  Claim C5 at \<^verbatim>\<open>READY\<close> and \<^verbatim>\<open>QuitRequested\<close>: \<^verbatim>\<open>get_allowed_transitions\<close> lists the
  class, while \<^verbatim>\<open>_calculate_transition\<close> returns \<^verbatim>\<open>None\<close> for the event (reaching the
  ``Unknown event type'' warning) and \<^verbatim>\<open>transition\<close> blocks it.
\<close>

theorem allowed_QuitRequested_is_blocked:
  "QuitRequested_cls \<in> set (get_allowed_transitions READY) \<and>
   calculate_transition READY QuitRequested =
     ([(WARNING, ''Unknown event type: QuitRequested'')], None) \<and>
   fst (transition (init_StateMachine READY []) QuitRequested) = None"
  by (simp add: transition_result init_StateMachine_def type_name_def)

text \<open>Apart from \<^verbatim>\<open>QuitRequested\<close>, the two functions are views of one table: a class is
  listed for a state exactly when some event of that class is accepted there.\<close>

lemma allowed_matches_table_except_quit:
  "c \<noteq> QuitRequested_cls \<Longrightarrow>
     c \<in> set (get_allowed_transitions s) \<longleftrightarrow>
     (\<exists>event. type_of event = c \<and> snd (calculate_transition s event) \<noteq> None)"
proof (cases s; cases c)
qed (auto intro: exI [of _ KeyF9Pressed] exI [of _ KeyF10Pressed] exI [of _ KeyF8Pressed]
       exI [of _ KeyF2Pressed] exI [of _ "FullSTTDone [] []"] exI [of _ "FullSTTFail [] [] []"]
       exI [of _ "DoctorCompleted True None None"] elim!: type_of.elims)

lemma QuitRequested_listed_but_never_accepted:
  "snd (calculate_transition s QuitRequested) = None \<and>
   (QuitRequested_cls \<in> set (get_allowed_transitions s) \<longleftrightarrow> s \<noteq> INIT)"
  by (cases s) auto


section \<open>The audit log\<close>

lemma same_class_same_name: "type_of e1 = type_of e2 \<Longrightarrow> type_name e1 = type_name e2"
  by (simp add: type_name_def)

lemma calculate_transition_logged:
  "type_of e1 = type_of e2 \<Longrightarrow>
     fst (calculate_transition s e1) = fst (calculate_transition s e2)"
  by (cases e1; cases e2) (auto simp: type_name_def)

lemma calculate_transition_payload:
  "type_of e1 = type_of e2 \<Longrightarrow> type_of e1 \<noteq> DoctorCompleted_cls \<or> s \<noteq> INIT \<Longrightarrow>
     snd (calculate_transition s e1) = snd (calculate_transition s e2)"
  by (cases e1; cases e2) auto

lemma logged_by_transition_eq:
  "logged_by_transition sm event =
     fst (calculate_transition (current_state sm) event) @
     (case snd (calculate_transition (current_state sm) event) of
        None \<Rightarrow> [(WARNING, ''Invalid transition blocked: '' @ str_AppState (current_state sm)
                  @ '' --'' @ type_name event @ ''--> (blocked)'')]
      | Some new_state \<Rightarrow> [(INFO, ''State transition: '' @ str_AppState (current_state sm)
                  @ '' --'' @ type_name event @ ''--> '' @ str_AppState new_state)])"
  by (cases "calculate_transition (current_state sm) event")
     (auto simp: logged_by_transition_def transition_def split: option.splits)

text \<open>
  Claim C9, as stated, fails in one place. Two \<^verbatim>\<open>DoctorCompleted\<close> events that differ in
  the payload field \<^verbatim>\<open>success\<close>, submitted in \<^verbatim>\<open>INIT\<close>, are logged differently: the entry
  names the outcome, \<^verbatim>\<open>READY\<close> or \<^verbatim>\<open>ERROR\<close>, and \<^verbatim>\<open>success\<close> decides it.
\<close>

theorem audit_same_kind_counterexample:
  "type_of (DoctorCompleted True None None) = type_of (DoctorCompleted False None None) \<and>
   logged_by_transition (init_StateMachine INIT []) (DoctorCompleted True None None) \<noteq>
   logged_by_transition (init_StateMachine INIT []) (DoctorCompleted False None None)"
  by (simp add: logged_by_transition_eq init_StateMachine_def)

text \<open>
  Claim C9, amended. The entries a call of \<^verbatim>\<open>transition\<close> writes are determined by the
  old state, the event's class and the outcome: two events of one class submitted in the
  same state with the same outcome are logged identically. The outcome itself can depend
  on the payload only for \<^verbatim>\<open>DoctorCompleted\<close> in \<^verbatim>\<open>INIT\<close>; for every other class and
  state, two events of one class are logged identically whatever they carry, so no
  transcript text, error text or job identifier reaches the log.
\<close>

theorem audit_entries_from_kind_and_outcome:
  "type_of e1 = type_of e2 \<Longrightarrow>
     (fst (transition sm e1) = fst (transition sm e2) \<longrightarrow>
        logged_by_transition sm e1 = logged_by_transition sm e2) \<and>
     (type_of e1 \<noteq> DoctorCompleted_cls \<or> current_state sm \<noteq> INIT \<longrightarrow>
        logged_by_transition sm e1 = logged_by_transition sm e2)"
proof -
  assume same: "type_of e1 = type_of e2"
  have name: "type_name e1 = type_name e2"
    using same by (rule same_class_same_name)
  have own: "fst (calculate_transition (current_state sm) e1) =
             fst (calculate_transition (current_state sm) e2)"
    using same by (rule calculate_transition_logged)
  have outcome: "snd (calculate_transition (current_state sm) e1) =
                 snd (calculate_transition (current_state sm) e2) \<Longrightarrow>
                 logged_by_transition sm e1 = logged_by_transition sm e2"
    by (simp add: logged_by_transition_eq name own split: option.splits)
  show ?thesis
    using outcome calculate_transition_payload [OF same, of "current_state sm"]
    by (auto simp: transition_result)
qed

theorem audit_entries_witness:
  "type_of (FullSTTDone ''patient text A'' ''1'') = type_of (FullSTTDone ''other text B'' ''2'') \<and>
   fst (transition (init_StateMachine PROCESSING []) (FullSTTDone ''patient text A'' ''1'')) =
   fst (transition (init_StateMachine PROCESSING []) (FullSTTDone ''other text B'' ''2'')) \<and>
   logged_by_transition (init_StateMachine PROCESSING []) (FullSTTDone ''patient text A'' ''1'') =
   logged_by_transition (init_StateMachine PROCESSING []) (FullSTTDone ''other text B'' ''2'')"
  using audit_entries_from_kind_and_outcome
    [of "FullSTTDone ''patient text A'' ''1''" "FullSTTDone ''other text B'' ''2''"
        "init_StateMachine PROCESSING []"]
  by (simp add: transition_result init_StateMachine_def)



section \<open>The snippet tracker fires once per episode\<close>

















lemma idle_or_running_init: "reset_state (init_SnippetTracker threshold)"
  by (simp add: reset_state_def init_SnippetTracker_def)































section \<open>Reading the recording buffer\<close>

text \<open>Neither reader changes the service, and \<^verbatim>\<open>get_full\<close> returns the concatenation of
  the chunks (the empty array when there are none).\<close>

lemma get_snippet_frame: "snd (get_snippet rs seconds) = rs"
  by (simp add: get_snippet_def Let_def)

lemma get_full_eq: "get_full rs = (concat (chunks rs), rs)"
  by (simp add: get_full_def)

lemma get_snippet_positive:
  assumes "1 \<le> py_int (float_mul seconds (of_int (samplerate rs)))"
  shows "fst (get_snippet rs seconds) =
           last_samples (min (nat (py_int (float_mul seconds (of_int (samplerate rs)))))
                             (length (concat (chunks rs))))
             (concat (chunks rs))"
proof (cases "chunks rs = []")
  case True
  then show ?thesis by (simp add: get_snippet_def last_samples_def)
next
  case False
  let ?n = "py_int (float_mul seconds (of_int (samplerate rs)))"
  let ?buf = "concat (chunks rs)"
  show ?thesis
  proof (cases "int (length ?buf) \<le> ?n")
    case True
    then have "min (nat ?n) (length ?buf) = length ?buf" by linarith
    then show ?thesis
      using False True by (simp add: get_snippet_def Let_def last_samples_def)
  next
    case long: False
    then have m: "min (nat ?n) (length ?buf) = nat ?n" by linarith
    have "nat (- ?n + int (length ?buf)) = length ?buf - nat ?n"
      using assms long by linarith
    then show ?thesis
      using False long assms
      by (simp add: get_snippet_def Let_def last_samples_def slice_from_def m max_def)
  qed
qed

lemma get_snippet_zero:
  assumes "chunks rs \<noteq> []" "py_int (float_mul seconds (of_int (samplerate rs))) = 0"
  shows "fst (get_snippet rs seconds) = concat (chunks rs)"
  using assms by (simp add: get_snippet_def Let_def slice_from_def)

text \<open>
  Claim C10 at \<^verbatim>\<open>seconds = 0\<close>. With three samples recorded, the contract asks for the last
  \<open>min(int(0 * 16000), 3) = 0\<close> samples, the empty array. The code computes \<^verbatim>\<open>n = 0\<close>, finds
  \<^verbatim>\<open>len(buf) <= n\<close> false and returns \<^verbatim>\<open>buf[-0:]\<close>, which is the whole buffer. For \<^verbatim>\<open>n >= 1\<close>
  the code meets the contract (\<open>get_snippet_positive\<close>).
\<close>

theorem get_snippet_zero_seconds_returns_all:
  "fst (get_snippet \<lparr>chunks = [[1 / 2, - 1 / 4], [1 / 8]], samplerate = 16000\<rparr> 0) =
     [1 / 2, - 1 / 4, 1 / 8] \<and>
   last_samples (min (nat (py_int (0 * of_int 16000))) (length [1 / 2, - 1 / 4, 1 / 8 :: rat]))
     [1 / 2, - 1 / 4, 1 / 8 :: rat] = []"
  by (simp add: get_snippet_def slice_from_def py_int_def last_samples_def Let_def
        float_mul_def round_double_0)

text \<open>The product is rounded before it is truncated: \<^verbatim>\<open>0.0005625 * 48000\<close> is a float just
  below 27, and the snippet has 26 samples.\<close>

lemma float_product_truncated:
  "py_int (float_mul (round_double (9 / 16000)) 48000) = 26"
  by (simp add: py_int_def float_eval)



section \<open>The preflight checks short-circuit\<close>

lemma check_subdirs_hint: "\<not> fst (check_subdirs env ds) \<Longrightarrow> snd (check_subdirs env ds) \<noteq> None"
  by (induction ds) auto

lemma check_paths_hint: "\<not> fst (check_paths env) \<Longrightarrow> snd (check_paths env) \<noteq> None"
  using check_subdirs_hint [of env required_dirs]
  by (cases "data_dir_ok env") (simp_all add: check_paths_def)

lemma load_model_hint: "\<not> fst (load_model env name) \<Longrightarrow> snd (load_model env name) \<noteq> None"
  by (simp add: load_model_def split: LoadOutcome.splits)

lemma check_stt_model_hint: "check_stt_model env = Inr (False, h) \<Longrightarrow> h \<noteq> None"
  using load_model_hint [of env]
  by (auto simp: check_stt_model_def split: if_splits ConfigOutcome.splits)
     (metis fst_conv snd_conv)+

lemma check_microphone_hint: "check_microphone probe = Inr (False, h, d) \<Longrightarrow> h \<noteq> None"
  by (cases probe) auto

lemma doctor_check_microphone_hint:
  "snd (doctor_check_microphone env) = Inr (False, h, d) \<Longrightarrow> h \<noteq> None"
  by (auto simp: doctor_check_microphone_def
      split: ConfigOutcome.splits sum.splits prod.splits dest: check_microphone_hint)

lemma check_paths_requirements:
  "check_paths (env\<lparr>requirements_lock_exists := b\<rparr>) = check_paths env"
proof -
  have "check_subdirs (env\<lparr>requirements_lock_exists := b\<rparr>) ds = check_subdirs env ds" for ds
    by (induction ds) simp_all
  then show ?thesis by (simp add: check_paths_def)
qed

lemma checks_ignore_requirements:
  "check_stt_model (env\<lparr>requirements_lock_exists := b\<rparr>) = check_stt_model env"
  "doctor_check_microphone (env\<lparr>requirements_lock_exists := b\<rparr>) = doctor_check_microphone env"
  by (simp_all add: check_stt_model_def load_model_def doctor_check_microphone_def
        split: ConfigOutcome.splits sum.splits prod.splits option.splits)

lemma perform_checks_requirements:
  "perform_checks (env\<lparr>requirements_lock_exists := b\<rparr>) = perform_checks env"
  by (simp only: perform_checks_def check_paths_requirements checks_ignore_requirements Let_def)

lemma perform_path_fail:
  "\<not> fst (check_paths env) \<Longrightarrow>
     perform_checks env =
       ([CheckPaths],
        Inr \<lparr>success = False, error_code = Some ''PATH_NOT_WRITABLE'',
             error_hint = snd (check_paths env), mic_ok = False, model_ok = False\<rparr>)"
  by (simp add: perform_checks_def Let_def)

lemma perform_model_exit:
  "fst (check_paths env) \<Longrightarrow> check_stt_model env = Inl exit \<Longrightarrow>
     perform_checks env = ([CheckPaths, CheckRequirements, CheckSttModel], Inl exit)"
  by (simp add: perform_checks_def Let_def)

lemma perform_model_fail:
  "fst (check_paths env) \<Longrightarrow> check_stt_model env = Inr (False, h) \<Longrightarrow>
     perform_checks env =
       ([CheckPaths, CheckRequirements, CheckSttModel],
        Inr \<lparr>success = False, error_code = Some ''MODEL_NOT_LOADABLE'',
             error_hint = h, mic_ok = True, model_ok = False\<rparr>)"
  by (simp add: perform_checks_def Let_def)

lemma perform_mic_exit:
  "fst (check_paths env) \<Longrightarrow> check_stt_model env = Inr (True, h) \<Longrightarrow>
   snd (doctor_check_microphone env) = Inl exit \<Longrightarrow>
     perform_checks env =
       ([CheckPaths, CheckRequirements, CheckSttModel, CheckMicrophone]
          @ fst (doctor_check_microphone env), Inl exit)"
  by (cases "doctor_check_microphone env") (simp add: perform_checks_def Let_def)

lemma perform_mic_fail:
  "fst (check_paths env) \<Longrightarrow> check_stt_model env = Inr (True, h) \<Longrightarrow>
   snd (doctor_check_microphone env) = Inr (False, mh, d) \<Longrightarrow>
     perform_checks env =
       ([CheckPaths, CheckRequirements, CheckSttModel, CheckMicrophone]
          @ fst (doctor_check_microphone env),
        Inr \<lparr>success = False, error_code = Some ''MIC_NOT_AVAILABLE'',
             error_hint = mh, mic_ok = False, model_ok = True\<rparr>)"
  by (cases "doctor_check_microphone env") (simp add: perform_checks_def Let_def)

lemma perform_all_pass:
  "fst (check_paths env) \<Longrightarrow> check_stt_model env = Inr (True, h) \<Longrightarrow>
   snd (doctor_check_microphone env) = Inr (True, mh, d) \<Longrightarrow>
     perform_checks env =
       ([CheckPaths, CheckRequirements, CheckSttModel, CheckMicrophone]
          @ fst (doctor_check_microphone env),
        Inr \<lparr>success = True, error_code = None, error_hint = None,
             mic_ok = True, model_ok = True\<rparr>)"
  by (cases "doctor_check_microphone env") (simp add: perform_checks_def Let_def)

lemma saved_no_check: "filter is_check (fst (doctor_check_microphone env)) = []"
  by (simp add: doctor_check_microphone_def
      split: ConfigOutcome.splits sum.splits prod.splits option.splits)

text \<open>The cases a run can take.\<close>

lemma perform_checks_cases:
  obtains
    (path) "\<not> fst (check_paths env)"
  | (model_exit) exit where "fst (check_paths env)" "check_stt_model env = Inl exit"
  | (model) h where "fst (check_paths env)" "check_stt_model env = Inr (False, h)"
  | (mic_exit) h exit where "fst (check_paths env)" "check_stt_model env = Inr (True, h)"
      "snd (doctor_check_microphone env) = Inl exit"
  | (mic) h mh d where "fst (check_paths env)" "check_stt_model env = Inr (True, h)"
      "snd (doctor_check_microphone env) = Inr (False, mh, d)"
  | (pass) h mh d where "fst (check_paths env)" "check_stt_model env = Inr (True, h)"
      "snd (doctor_check_microphone env) = Inr (True, mh, d)"
proof (cases "fst (check_paths env)")
  case False
  then show ?thesis by (rule path)
next
  case True
  show ?thesis
  proof (cases "check_stt_model env")
    case (Inl exit)
    with True show ?thesis by (rule model_exit)
  next
    case (Inr mc)
    obtain ok h where mc: "mc = (ok, h)" by (cases mc)
    show ?thesis
    proof (cases ok)
      case False
      with True Inr mc show ?thesis by (auto intro: model)
    next
      case ok: True
      show ?thesis
      proof (cases "snd (doctor_check_microphone env)")
        case (Inl exit)
        with True Inr mc ok show ?thesis by (auto intro: mic_exit)
      next
        case (Inr r)
        obtain mok mh d where r: "r = (mok, mh, d)" by (cases r)
        show ?thesis
        proof (cases mok)
          case True
          with \<open>fst (check_paths env)\<close> \<open>check_stt_model env = Inr mc\<close> mc ok Inr r
          show ?thesis by (auto intro: pass)
        next
          case False
          with \<open>fst (check_paths env)\<close> \<open>check_stt_model env = Inr mc\<close> mc ok Inr r
          show ?thesis by (auto intro: mic)
        qed
      qed
    qed
  qed
qed

lemma perform_checks_order:
  "\<exists>k. filter is_check (fst (perform_checks env)) =
     take k [CheckPaths, CheckRequirements, CheckSttModel, CheckMicrophone]"
proof (cases env rule: perform_checks_cases)
  case path
  then show ?thesis
    by (intro exI [of _ 1]) (simp add: perform_path_fail)
next
  case (model_exit exit)
  then show ?thesis
    by (intro exI [of _ 3]) (simp add: perform_model_exit)
next
  case (model h)
  then show ?thesis
    by (intro exI [of _ 3]) (simp add: perform_model_fail)
next
  case (mic_exit h exit)
  then show ?thesis
    by (intro exI [of _ 4]) (simp add: perform_mic_exit saved_no_check)
next
  case (mic h mh d)
  then show ?thesis
    by (intro exI [of _ 4]) (simp add: perform_mic_fail saved_no_check)
next
  case (pass h mh d)
  then show ?thesis
    by (intro exI [of _ 4]) (simp add: perform_all_pass saved_no_check)
qed

lemma perform_checks_success_iff:
  "(\<exists>r. snd (perform_checks env) = Inr r \<and> success r) \<longleftrightarrow>
     fst (check_paths env) \<and> (\<exists>h. check_stt_model env = Inr (True, h)) \<and>
     (\<exists>mh d. snd (doctor_check_microphone env) = Inr (True, mh, d))"
proof (cases env rule: perform_checks_cases)
  case path
  then show ?thesis by (simp add: perform_path_fail)
next
  case (model_exit exit)
  then show ?thesis by (simp add: perform_model_exit)
next
  case (model h)
  then show ?thesis by (simp add: perform_model_fail)
next
  case (mic_exit h exit)
  then show ?thesis by (simp add: perform_mic_exit)
next
  case (mic h mh d)
  then show ?thesis by (simp add: perform_mic_fail)
next
  case (pass h mh d)
  then show ?thesis by (simp add: perform_all_pass)
qed

text \<open>
  The runs in which every check entered returns. \<^verbatim>\<open>_perform_checks\<close> enters its checks in
  the order paths, requirements, STT model, microphone, and stops at the first that fails:
  \<^item> the checks entered are always an initial part of that list;
  \<^item> if the path check fails, nothing else is entered and the result is a failure with code
    \<^verbatim>\<open>PATH_NOT_WRITABLE\<close> and the path check's hint;
  \<^item> if the paths pass and the model check returns a failure, the microphone is not probed
    and the result is a failure with code \<^verbatim>\<open>MODEL_NOT_LOADABLE\<close> and the check's hint;
  \<^item> if both pass and the microphone check returns a failure, the result is a failure with
    code \<^verbatim>\<open>MIC_NOT_AVAILABLE\<close> and the check's hint;
  \<^item> in each of these failures the hint is present;
  \<^item> whether \<^verbatim>\<open>requirements.lock.txt\<close> exists changes nothing of the run;
  \<^item> a result with \<^verbatim>\<open>success = True\<close> is returned exactly when the path, model and microphone
    checks all return a pass.
\<close>

lemma perform_checks_short_circuit:
  "(\<exists>k. filter is_check (fst (perform_checks env)) =
      take k [CheckPaths, CheckRequirements, CheckSttModel, CheckMicrophone]) \<and>
   (\<not> fst (check_paths env) \<longrightarrow>
      perform_checks env =
        ([CheckPaths],
         Inr \<lparr>success = False, error_code = Some ''PATH_NOT_WRITABLE'',
              error_hint = snd (check_paths env), mic_ok = False, model_ok = False\<rparr>) \<and>
      snd (check_paths env) \<noteq> None) \<and>
   (fst (check_paths env) \<and> check_stt_model env = Inr (False, h) \<longrightarrow>
      perform_checks env =
        ([CheckPaths, CheckRequirements, CheckSttModel],
         Inr \<lparr>success = False, error_code = Some ''MODEL_NOT_LOADABLE'',
              error_hint = h, mic_ok = True, model_ok = False\<rparr>) \<and>
      h \<noteq> None) \<and>
   (fst (check_paths env) \<and> check_stt_model env = Inr (True, h) \<and>
    snd (doctor_check_microphone env) = Inr (False, mh, d) \<longrightarrow>
      perform_checks env =
        ([CheckPaths, CheckRequirements, CheckSttModel, CheckMicrophone]
           @ fst (doctor_check_microphone env),
         Inr \<lparr>success = False, error_code = Some ''MIC_NOT_AVAILABLE'',
              error_hint = mh, mic_ok = False, model_ok = True\<rparr>) \<and>
      mh \<noteq> None) \<and>
   perform_checks (env\<lparr>requirements_lock_exists := b\<rparr>) = perform_checks env \<and>
   ((\<exists>r. snd (perform_checks env) = Inr r \<and> success r) \<longleftrightarrow>
      fst (check_paths env) \<and> (\<exists>h'. check_stt_model env = Inr (True, h')) \<and>
      (\<exists>mh' d'. snd (doctor_check_microphone env) = Inr (True, mh', d')))"
proof -
  have order: "\<exists>k. filter is_check (fst (perform_checks env)) =
      take k [CheckPaths, CheckRequirements, CheckSttModel, CheckMicrophone]"
    by (rule perform_checks_order)
  have req: "perform_checks (env\<lparr>requirements_lock_exists := b\<rparr>) = perform_checks env"
    by (rule perform_checks_requirements)
  note iff = perform_checks_success_iff [of env]
  show ?thesis
    using order req iff perform_path_fail [of env] check_paths_hint [of env]
      perform_model_fail [of env h] check_stt_model_hint [of env h]
      perform_mic_fail [of env h mh d] doctor_check_microphone_hint [of env mh d]
    by blast
qed

lemmas doctor_eval =
  working_env_def check_paths_def required_dirs_def check_stt_model_def load_model_def
  doctor_check_microphone_def

lemma working_env_paths: "check_paths working_env = (True, None)"
  by (simp add: doctor_eval)

lemma check_paths_cong:
  "data_dir_ok e = data_dir_ok e' \<Longrightarrow> subdir_mkdir_ok e = subdir_mkdir_ok e' \<Longrightarrow>
   subdir_write_ok e = subdir_write_ok e' \<Longrightarrow> check_paths e = check_paths e'"
proof -
  assume a: "data_dir_ok e = data_dir_ok e'" "subdir_mkdir_ok e = subdir_mkdir_ok e'"
    "subdir_write_ok e = subdir_write_ok e'"
  have "check_subdirs e ds = check_subdirs e' ds" for ds
    by (induction ds) (simp_all add: a)
  then show ?thesis by (simp add: check_paths_def a)
qed

lemma broken_logs_paths: "check_paths (working_env\<lparr>subdir_write_ok := (\<lambda>d. d \<noteq> ''logs'')\<rparr>) = (False, Some ''Cannot write to logs/ directory'')"
    by (simp add: doctor_eval)

lemma broken_model_paths: "check_paths (working_env\<lparr>whisper_model := (\<lambda>n. LoadRaises ''RuntimeError'')\<rparr>) = (True, None)"
  by (rule trans [OF check_paths_cong working_env_paths]) simp_all

lemma broken_model_stt: "check_stt_model (working_env\<lparr>whisper_model := (\<lambda>n. LoadRaises ''RuntimeError'')\<rparr>) =
      Inr (False, Some ''Cannot load STT model: RuntimeError'')"
  by (simp add: working_env_def check_stt_model_def load_model_def)

lemma broken_mic_paths: "check_paths (working_env\<lparr>microphone := AllDevicesFail (Some ''Device unavailable'')\<rparr>) = (True, None)"
  by (rule trans [OF check_paths_cong working_env_paths]) simp_all

lemma broken_mic_stt: "check_stt_model (working_env\<lparr>microphone := AllDevicesFail (Some ''Device unavailable'')\<rparr>) = Inr (True, None)"
  by (simp add: working_env_def check_stt_model_def load_model_def)

lemma broken_mic_probe: "doctor_check_microphone (working_env\<lparr>microphone := AllDevicesFail (Some ''Device unavailable'')\<rparr>) = ([], Inr (False, Some ''Device unavailable'', None))"
  by (simp add: working_env_def doctor_check_microphone_def)

lemma working_env_stt: "check_stt_model working_env = Inr (True, None)"
  by (simp add: working_env_def check_stt_model_def load_model_def)

lemma working_env_probe: "doctor_check_microphone working_env = ([UpdateAudioDevice ''USB Mic''], Inr (True, None, Some ''USB Mic''))"
  by (simp add: working_env_def doctor_check_microphone_def)


lemma perform_checks_examples:
  "(\<not> fst (check_paths (working_env\<lparr>subdir_write_ok := (\<lambda>d. d \<noteq> ''logs'')\<rparr>)) \<and>
    perform_checks (working_env\<lparr>subdir_write_ok := (\<lambda>d. d \<noteq> ''logs'')\<rparr>) =
      ([CheckPaths],
       Inr \<lparr>success = False, error_code = Some ''PATH_NOT_WRITABLE'',
            error_hint = Some ''Cannot write to logs/ directory'',
            mic_ok = False, model_ok = False\<rparr>)) \<and>
   (fst (check_paths (working_env\<lparr>whisper_model := (\<lambda>n. LoadRaises ''RuntimeError'')\<rparr>)) \<and>
    check_stt_model (working_env\<lparr>whisper_model := (\<lambda>n. LoadRaises ''RuntimeError'')\<rparr>) =
      Inr (False, Some ''Cannot load STT model: RuntimeError'') \<and>
    perform_checks (working_env\<lparr>whisper_model := (\<lambda>n. LoadRaises ''RuntimeError'')\<rparr>) =
      ([CheckPaths, CheckRequirements, CheckSttModel],
       Inr \<lparr>success = False, error_code = Some ''MODEL_NOT_LOADABLE'',
            error_hint = Some ''Cannot load STT model: RuntimeError'',
            mic_ok = True, model_ok = False\<rparr>)) \<and>
   (fst (check_paths (working_env\<lparr>microphone := AllDevicesFail (Some ''Device unavailable'')\<rparr>)) \<and>
    check_stt_model (working_env\<lparr>microphone := AllDevicesFail (Some ''Device unavailable'')\<rparr>) =
      Inr (True, None) \<and>
    snd (doctor_check_microphone
           (working_env\<lparr>microphone := AllDevicesFail (Some ''Device unavailable'')\<rparr>)) =
      Inr (False, Some ''Device unavailable'', None) \<and>
    perform_checks (working_env\<lparr>microphone := AllDevicesFail (Some ''Device unavailable'')\<rparr>) =
      ([CheckPaths, CheckRequirements, CheckSttModel, CheckMicrophone],
       Inr \<lparr>success = False, error_code = Some ''MIC_NOT_AVAILABLE'',
            error_hint = Some ''Device unavailable'', mic_ok = False, model_ok = True\<rparr>)) \<and>
   (\<not> requirements_lock_exists working_env \<and>
    (\<exists>r. snd (perform_checks working_env) = Inr r \<and> success r))"
proof -
  let ?e1 = "working_env\<lparr>subdir_write_ok := (\<lambda>d. d \<noteq> ''logs'')\<rparr>"
  let ?e2 = "working_env\<lparr>whisper_model := (\<lambda>n. LoadRaises ''RuntimeError'')\<rparr>"
  let ?e3 = "working_env\<lparr>microphone := AllDevicesFail (Some ''Device unavailable'')\<rparr>"
  have f1: "\<not> fst (check_paths ?e1)"
    by (simp add: broken_logs_paths)
  have "perform_checks ?e1 =
      ([CheckPaths],
       Inr \<lparr>success = False, error_code = Some ''PATH_NOT_WRITABLE'',
            error_hint = snd (check_paths ?e1), mic_ok = False, model_ok = False\<rparr>)"
    using perform_checks_short_circuit [of ?e1 None None None True] f1 by blast
  then have c1: "perform_checks ?e1 =
      ([CheckPaths],
       Inr \<lparr>success = False, error_code = Some ''PATH_NOT_WRITABLE'',
            error_hint = Some ''Cannot write to logs/ directory'',
            mic_ok = False, model_ok = False\<rparr>)"
    by (simp only: broken_logs_paths snd_conv)
  have f2: "fst (check_paths ?e2)"
    by (simp add: broken_model_paths)
  have c2: "perform_checks ?e2 =
      ([CheckPaths, CheckRequirements, CheckSttModel],
       Inr \<lparr>success = False, error_code = Some ''MODEL_NOT_LOADABLE'',
            error_hint = Some ''Cannot load STT model: RuntimeError'',
            mic_ok = True, model_ok = False\<rparr>)"
    using perform_checks_short_circuit
            [of ?e2 "Some ''Cannot load STT model: RuntimeError''" None None True] f2 broken_model_stt
    by blast
  have f3: "fst (check_paths ?e3)"
    by (simp add: broken_mic_paths)
  have s3: "snd (doctor_check_microphone ?e3) = Inr (False, Some ''Device unavailable'', None)"
    by (simp add: broken_mic_probe)
  have "perform_checks ?e3 =
      ([CheckPaths, CheckRequirements, CheckSttModel, CheckMicrophone]
         @ fst (doctor_check_microphone ?e3),
       Inr \<lparr>success = False, error_code = Some ''MIC_NOT_AVAILABLE'',
            error_hint = Some ''Device unavailable'', mic_ok = False, model_ok = True\<rparr>)"
    using perform_checks_short_circuit [of ?e3 None "Some ''Device unavailable''" None True]
      f3 broken_mic_stt s3
    by blast
  then have c3: "perform_checks ?e3 =
      ([CheckPaths, CheckRequirements, CheckSttModel, CheckMicrophone],
       Inr \<lparr>success = False, error_code = Some ''MIC_NOT_AVAILABLE'',
            error_hint = Some ''Device unavailable'', mic_ok = False, model_ok = True\<rparr>)"
    by (simp only: broken_mic_probe fst_conv append_Nil2)
  have f4: "fst (check_paths working_env)"
    by (simp add: working_env_paths)
  have s4: "snd (doctor_check_microphone working_env) = Inr (True, None, Some ''USB Mic'')"
    by (simp add: working_env_probe)
  have c4: "\<exists>r. snd (perform_checks working_env) = Inr r \<and> success r"
    using perform_checks_short_circuit [of working_env None None None True] f4 working_env_stt s4
    by blast
  have r4: "\<not> requirements_lock_exists working_env"
    by (simp add: working_env_def)
  show ?thesis
    using f1 c1 f2 broken_model_stt c2 f3 broken_mic_stt s3 c3 r4 c4 by blast
qed

text \<open>
  Claim C8 where \<^verbatim>\<open>config.toml\<close> has gone missing by the time the checks run. The paths are
  writable and \<^verbatim>\<open>faster_whisper\<close> is installed; \<^verbatim>\<open>_check_stt_model\<close> calls \<^verbatim>\<open>load_config\<close>,
  which prints an error and calls \<^verbatim>\<open>sys.exit(1)\<close>. The handler written for a failing
  configuration (\<^verbatim>\<open>except Exception\<close>, falling back to the model \<^verbatim>\<open>"small"\<close>) does not catch
  \<^verbatim>\<open>SystemExit\<close>, nor do the outer handlers, so the third check neither passes nor returns a
  failure: \<^verbatim>\<open>_perform_checks\<close> is left by the exception and returns no result, where the
  claim has it return \<^verbatim>\<open>success = False\<close> with the failing check's code and a hint.
\<close>

theorem perform_checks_config_exit:
  "check_paths (working_env\<lparr>load_config := ConfigExits\<rparr>) = (True, None) \<and>
   check_stt_model (working_env\<lparr>load_config := ConfigExits\<rparr>) = Inl SystemExit \<and>
   perform_checks (working_env\<lparr>load_config := ConfigExits\<rparr>) =
     ([CheckPaths, CheckRequirements, CheckSttModel], Inl SystemExit)"
proof -
  have paths: "check_paths (working_env\<lparr>load_config := ConfigExits\<rparr>) = (True, None)"
    by (rule trans [OF check_paths_cong working_env_paths]) simp_all
  have stt: "check_stt_model (working_env\<lparr>load_config := ConfigExits\<rparr>) = Inl SystemExit"
    by (simp add: working_env_def check_stt_model_def)
  have "perform_checks (working_env\<lparr>load_config := ConfigExits\<rparr>) =
     ([CheckPaths, CheckRequirements, CheckSttModel], Inl SystemExit)"
    using paths stt by (simp add: perform_model_exit)
  then show ?thesis
    using paths stt by simp
qed

text \<open>The same in every environment with writable paths and \<^verbatim>\<open>faster_whisper\<close> installed
  in which \<^verbatim>\<open>load_config\<close> exits.\<close>

lemma perform_checks_exit_no_result:
  "load_config env = ConfigExits \<Longrightarrow> fst (check_paths env) \<Longrightarrow>
   faster_whisper_installed env \<Longrightarrow>
     perform_checks env = ([CheckPaths, CheckRequirements, CheckSttModel], Inl SystemExit)"
  by (simp add: perform_model_exit check_stt_model_def)



section \<open>Requests before the engine is ready\<close>

text \<open>\<^verbatim>\<open>strip\<close> removes U+001F and a blank from the front and U+00A0 and a line feed from
  the end; a character that is not white space stays, as U+00A9 does, which shares its
  first byte with U+00A0.\<close>

lemma strip_examples:
  "strip ([CHR 0x1F] @ '' hallo'' @ [CHR 0xC2, CHR 0xA0, CHR 0x0A]) = ''hallo''"
  "strip ([CHR 0xC2, CHR 0xA9] @ ''hallo '') = [CHR 0xC2, CHR 0xA9] @ ''hallo''"
  by (simp_all add: strip_def is_space_def is_space2_def is_space3_def)

lemma transcribe_full_internal_not_ready:
  "\<not> is_ready svc \<or> model svc = None \<Longrightarrow>
     transcribe_full_internal svc audio_data job_id = ([], stt_not_ready job_id)"
  by (auto simp: transcribe_full_internal_def)

lemma transcribe_snippet_internal_not_ready:
  "\<not> is_ready svc \<or> model svc = None \<Longrightarrow>
     transcribe_snippet_internal svc audio_data =
       ([], \<lparr>s_success = False, s_transcript = None, s_quality = None,
             s_error_hint = Some ''STT nicht bereit''\<rparr>)"
  by (auto simp: transcribe_snippet_internal_def)

text \<open>
  Claim C7, as stated, fails for \<^verbatim>\<open>transcribe_snippet\<close>. The method starts its worker thread
  without looking at the engine; the readiness check is in \<^verbatim>\<open>_transcribe_snippet_internal\<close>,
  which the worker runs. A request issued while the service is not loaded, whose worker
  runs after the initialisation thread has finished \<^verbatim>\<open>_load_and_warmup\<close>, is transcribed:
  the model is invoked and the callback receives a success.
\<close>

theorem late_snippet_request_counterexample:
  "\<not> is_ready fresh_service \<and>
   model fresh_service = None \<and>
   transcribe_snippet fresh_service three_samples = RunTranscription three_samples \<and>
   is_ready (fst (load_and_warmup fresh_service (Constructed one_word_engine))) \<and>
   run_task (fst (load_and_warmup fresh_service (Constructed one_word_engine)))
       (transcribe_snippet fresh_service three_samples) =
     [ModelTranscribe three_samples,
      SnippetCallback \<lparr>s_success = True, s_transcript = Some ''hallo'',
                       s_quality = Some ''unknown'', s_error_hint = None\<rparr>]"
  by (simp add: fresh_service_def init_STTService_def transcribe_snippet_def
        load_and_warmup_def one_word_engine_def transcribe_snippet_internal_def
        three_samples_def transcript_of_def strip_def is_space_def is_space2_def
        is_space3_def)

text \<open>
  Claim C7, amended. A \<^verbatim>\<open>transcribe_full\<close> request issued while the engine is not ready
  (\<^verbatim>\<open>_is_ready\<close> false or \<^verbatim>\<open>model\<close> \<^verbatim>\<open>None\<close>) is refused at the call: the thread it starts
  only hands the failure (\<^verbatim>\<open>STT_NOT_READY\<close>, ``STT nicht bereit'', the request's job id) to
  the callback, whatever the service has become by the time it runs (\<open>later\<close>), and the
  model is not invoked. A \<^verbatim>\<open>transcribe_snippet\<close> request, and a full transcription already
  handed to its worker, are checked when the worker runs: if the engine is not ready then,
  the callback receives the failure with the hint ``STT nicht bereit'' and the model is not
  invoked.
\<close>

theorem not_ready_requests_fail:
  "(\<not> is_ready svc \<or> model svc = None \<longrightarrow>
      transcribe_full svc audio_data job_id = CallbackWith (stt_not_ready job_id) \<and>
      run_task later (transcribe_full svc audio_data job_id) =
        [FullCallback \<lparr>f_success = False, f_transcript = None,
                       f_error_code = Some ''STT_NOT_READY'',
                       f_error_hint = Some ''STT nicht bereit'', f_job_id = job_id\<rparr>]) \<and>
   (\<not> is_ready later \<or> model later = None \<longrightarrow>
      run_task later (transcribe_snippet svc audio_data) =
        [SnippetCallback \<lparr>s_success = False, s_transcript = None, s_quality = None,
                          s_error_hint = Some ''STT nicht bereit''\<rparr>] \<and>
      run_task later (RunFullTranscription audio_data job_id) =
        [FullCallback \<lparr>f_success = False, f_transcript = None,
                       f_error_code = Some ''STT_NOT_READY'',
                       f_error_hint = Some ''STT nicht bereit'', f_job_id = job_id\<rparr>])"
  by (simp add: transcribe_full_def transcribe_snippet_def stt_not_ready_def
        transcribe_full_internal_not_ready transcribe_snippet_internal_not_ready)

theorem not_ready_requests_witness:
  "\<not> is_ready fresh_service \<and> model fresh_service = None \<and>
   transcribe_full fresh_service three_samples ''job-1'' =
     CallbackWith (stt_not_ready ''job-1'') \<and>
   run_task (fst (load_and_warmup fresh_service (Constructed one_word_engine)))
       (transcribe_full fresh_service three_samples ''job-1'') =
     [FullCallback \<lparr>f_success = False, f_transcript = None,
                    f_error_code = Some ''STT_NOT_READY'',
                    f_error_hint = Some ''STT nicht bereit'', f_job_id = ''job-1''\<rparr>] \<and>
   run_task fresh_service (transcribe_snippet fresh_service three_samples) =
     [SnippetCallback \<lparr>s_success = False, s_transcript = None, s_quality = None,
                       s_error_hint = Some ''STT nicht bereit''\<rparr>]"
proof -
  have nr: "\<not> is_ready fresh_service" "model fresh_service = None"
    by (simp_all add: fresh_service_def init_STTService_def)
  show ?thesis
    using not_ready_requests_fail
            [of fresh_service three_samples "''job-1''"
                "fst (load_and_warmup fresh_service (Constructed one_word_engine))"]
          not_ready_requests_fail [of fresh_service three_samples "''job-1''" fresh_service]
          nr
    by blast
qed

end
